theory Spec2Isabelle
  imports Complex_Main
begin

section \<open>Numbers and records of the engine\<close>

text \<open>
  The engine of \<^verbatim>\<open>src/services/dataProcessor.ts\<close> computes on JavaScript numbers.
  \<^item> The heights and chart volumes of a curve, and the heights and deliveries of dip
    readings, are modelled as reals. A pipeline that would store \<^verbatim>\<open>Infinity\<close> in one of
    them answers \<open>HasInfinity\<close> instead of a result (see \<open>real_valued\<close> below).
  \<^item> A number that may be infinite is an \<open>extnum\<close>; where it may also be \<^verbatim>\<open>NaN\<close> it is
    an \<open>extnum option\<close>, with \<open>None\<close> for \<^verbatim>\<open>NaN\<close>. Numerals read from text, field volumes,
    deviations and statistics are of this kind.
  \<^item> An optional numeric field is an \<open>optnum\<close>.
  \<^item> Finite results keep their exact value: the rounding of a finite double is not
    modelled, the overflow of a numeral or of a sum to \<^verbatim>\<open>Infinity\<close> is.
\<close>

datatype extnum = NegInfinity | Fin real | PosInfinity

text \<open>The order of the numbers: \<^verbatim>\<open>-Infinity\<close> below every real, \<^verbatim>\<open>Infinity\<close> above.\<close>

instantiation extnum :: linorder
begin

fun less_eq_extnum :: "extnum \<Rightarrow> extnum \<Rightarrow> bool" where
  "less_eq_extnum NegInfinity b = True"
| "less_eq_extnum (Fin x) NegInfinity = False"
| "less_eq_extnum (Fin x) (Fin y) = (x \<le> y)"
| "less_eq_extnum (Fin x) PosInfinity = True"
| "less_eq_extnum PosInfinity NegInfinity = False"
| "less_eq_extnum PosInfinity (Fin y) = False"
| "less_eq_extnum PosInfinity PosInfinity = True"

definition less_extnum :: "extnum \<Rightarrow> extnum \<Rightarrow> bool" where
  "less_extnum a b \<longleftrightarrow> a \<le> b \<and> \<not> b \<le> a"

instance
proof
  fix x y z :: extnum
  show "(x < y) = (x \<le> y \<and> \<not> y \<le> x)"
    by (simp add: less_extnum_def)
  show "x \<le> x"
    by (cases x) simp_all
  show "x \<le> y \<Longrightarrow> y \<le> z \<Longrightarrow> x \<le> z"
    by (cases x; cases y; cases z) simp_all
  show "x \<le> y \<Longrightarrow> y \<le> x \<Longrightarrow> x = y"
    by (cases x; cases y) simp_all
  show "x \<le> y \<or> y \<le> x"
    by (cases x; cases y) auto
qed

end

text \<open>
  A real result as a double, as far as its range goes: a magnitude of at least
  \<open>2^1024 - 2^970\<close> rounds to an infinity.
\<close>

definition roundOverflow :: "real \<Rightarrow> extnum" where
  "roundOverflow x =
     (if 2 ^ 1024 - 2 ^ 970 \<le> x then PosInfinity
      else if x \<le> - (2 ^ 1024 - 2 ^ 970) then NegInfinity
      else Fin x)"

text \<open>\<^verbatim>\<open>a + b\<close>, \<^verbatim>\<open>a - b\<close> and \<^verbatim>\<open>a / n\<close> for a positive count \<open>n\<close>; \<open>None\<close> is \<^verbatim>\<open>NaN\<close>.\<close>

fun add_extnum :: "extnum \<Rightarrow> extnum \<Rightarrow> extnum option" where
  "add_extnum (Fin x) (Fin y) = Some (roundOverflow (x + y))"
| "add_extnum PosInfinity NegInfinity = None"
| "add_extnum NegInfinity PosInfinity = None"
| "add_extnum PosInfinity b = Some PosInfinity"
| "add_extnum NegInfinity b = Some NegInfinity"
| "add_extnum (Fin x) PosInfinity = Some PosInfinity"
| "add_extnum (Fin x) NegInfinity = Some NegInfinity"

fun negate_extnum :: "extnum \<Rightarrow> extnum" where
  "negate_extnum NegInfinity = PosInfinity"
| "negate_extnum (Fin x) = Fin (- x)"
| "negate_extnum PosInfinity = NegInfinity"

definition js_add :: "extnum option \<Rightarrow> extnum option \<Rightarrow> extnum option" where
  "js_add a b = (case (a, b) of (Some x, Some y) \<Rightarrow> add_extnum x y | _ \<Rightarrow> None)"

definition js_sub :: "extnum option \<Rightarrow> extnum option \<Rightarrow> extnum option" where
  "js_sub a b = js_add a (map_option negate_extnum b)"

fun divideByCount :: "extnum option \<Rightarrow> nat \<Rightarrow> extnum option" where
  "divideByCount None n = None"
| "divideByCount (Some (Fin x)) n = Some (Fin (x / real n))"
| "divideByCount (Some PosInfinity) n = Some PosInfinity"
| "divideByCount (Some NegInfinity) n = Some NegInfinity"

datatype optnum = Undefined | Null | NaN | Num extnum

text \<open>An \<^verbatim>\<open>undefined\<close>-free number as a field value.\<close>

definition toOptnum :: "extnum option \<Rightarrow> optnum" where
  "toOptnum v = (case v of None \<Rightarrow> NaN | Some n \<Rightarrow> Num n)"

text \<open>\<^verbatim>\<open>isNaN(d)\<close> coerces with \<^verbatim>\<open>Number\<close>: \<^verbatim>\<open>undefined\<close> becomes \<^verbatim>\<open>NaN\<close>, \<^verbatim>\<open>null\<close> becomes 0.\<close>

fun isNaN :: "optnum \<Rightarrow> bool" where
  "isNaN Undefined = True"
| "isNaN Null = False"
| "isNaN NaN = True"
| "isNaN (Num n) = False"

text \<open>
  The number held by an optional field. It is read only after the three other cases have
  been filtered out; on them it is 0.
\<close>

fun numValue :: "optnum \<Rightarrow> extnum" where
  "numValue (Num n) = n"
| "numValue Undefined = Fin 0"
| "numValue Null = Fin 0"
| "numValue NaN = Fin 0"

text \<open>\<^verbatim>\<open>d > m\<close> and \<^verbatim>\<open>d < m\<close> for a real \<open>d\<close> and a possibly infinite \<open>m\<close>.\<close>

fun num_gt :: "real \<Rightarrow> extnum \<Rightarrow> bool" where
  "num_gt d NegInfinity = True"
| "num_gt d (Fin v) = (d > v)"
| "num_gt d PosInfinity = False"

fun num_lt :: "real \<Rightarrow> extnum \<Rightarrow> bool" where
  "num_lt d NegInfinity = False"
| "num_lt d (Fin v) = (d < v)"
| "num_lt d PosInfinity = True"

text \<open>
  The outcome of a step whose result the code stores in a real-valued record:
  \<open>RealValued r\<close> when every such number is finite, \<open>HasInfinity\<close> when the code stores
  an infinite one. \<open>allRealValued\<close> collects a list of outcomes.
\<close>

datatype 'a real_valued = RealValued 'a | HasInfinity

fun allRealValued :: "'a real_valued list \<Rightarrow> 'a list option" where
  "allRealValued [] = Some []"
| "allRealValued (RealValued x # xs) = map_option (Cons x) (allRealValued xs)"
| "allRealValued (HasInfinity # xs) = None"

text \<open>\<^verbatim>\<open>interface ProcessedData\<close> of \<^verbatim>\<open>src/types.ts\<close>.\<close>

record ProcessedData =
  height :: real
  chartVolume :: real
  fieldVolume :: optnum
  deviation :: optnum

text \<open>\<^verbatim>\<open>interface DeviationPoint { height; value }\<close>.\<close>

record DeviationPoint =
  dp_height :: extnum
  dp_value :: extnum

record ValidationStats =
  totalMeasurements :: nat
  averageDeviation :: "extnum option"
  maxDeviation :: DeviationPoint
  minDeviation :: DeviationPoint

text \<open>\<^verbatim>\<open>interface DeliveryValidationData\<close>; its field \<^verbatim>\<open>deviation\<close> is \<open>dv_deviation\<close> here.\<close>

record DeliveryValidationData =
  heightBefore :: real
  heightAfter :: real
  reportedDelivery :: real
  chartCalculatedDelivery :: real
  dv_deviation :: real

text \<open>A dip reading \<^verbatim>\<open>{ height: number; delivery: number }\<close>.\<close>

record DeliveryPoint =
  dip_height :: real
  delivery :: real

text \<open>The result \<^verbatim>\<open>{ deliveryData, stats }\<close> of delivery validation.\<close>

record DeliveryResult =
  deliveryData :: "DeliveryValidationData list"
  stats :: ValidationStats

definition zeroStats :: ValidationStats where
  "zeroStats =
     \<lparr>totalMeasurements = 0, averageDeviation = Some (Fin 0),
      maxDeviation = \<lparr>dp_height = Fin 0, dp_value = Fin 0\<rparr>,
      minDeviation = \<lparr>dp_height = Fin 0, dp_value = Fin 0\<rparr>\<rparr>"

section \<open>Interpolator\<close>

text \<open>
  \<^verbatim>\<open>interpolate\<close>: the chart is copied and sorted by height (\<^verbatim>\<open>Array.prototype.sort\<close> is
  stable, as \<open>sort_key\<close> is); \<^verbatim>\<open>upper\<close> is the first point at or above the target,
  \<^verbatim>\<open>lower\<close> the first point of the reversed copy at or below it. When one of them is
  missing the result is \<^verbatim>\<open>sortedChart[0]?.chartVolume || 0\<close>. Outside the curve, at a
  height of the curve and on the empty curve the result is a stored volume or 0, with no
  arithmetic. Strictly between two heights of the curve the source computes the linear
  formula in doubles, rounding each operation; the model writes the formula in exact
  arithmetic, so a general statement about the value there would be one about the
  idealised formula; the theorems below are about the other cases.
\<close>

definition interpolate :: "real \<Rightarrow> ProcessedData list \<Rightarrow> real" where
  "interpolate h chartData =
     (let sortedChart = sort_key height chartData;
          upper = find (\<lambda>p. height p \<ge> h) sortedChart;
          lower = find (\<lambda>p. height p \<le> h) (rev sortedChart)
      in case (upper, lower) of
           (Some u, Some l) \<Rightarrow>
             if height u = height l then chartVolume u
             else (let slope = (chartVolume u - chartVolume l) / (height u - height l)
                   in chartVolume l + slope * (h - height l))
         | _ \<Rightarrow>
             (case sortedChart of
                [] \<Rightarrow> 0
              | p # _ \<Rightarrow> if chartVolume p \<noteq> 0 then chartVolume p else 0))"

section \<open>Resampler\<close>


section \<open>Statistics aggregator\<close>

definition validDeviation :: "optnum \<Rightarrow> bool" where
  "validDeviation d \<longleftrightarrow> d \<noteq> Undefined \<and> d \<noteq> Null \<and> \<not> isNaN d"

text \<open>The body of the \<^verbatim>\<open>forEach\<close> of \<^verbatim>\<open>calculateStats\<close>, on the pair of running extrema.\<close>

definition statsStep :: "DeviationPoint \<times> DeviationPoint \<Rightarrow> ProcessedData \<Rightarrow> DeviationPoint \<times> DeviationPoint" where
  "statsStep acc d =
     (if validDeviation (deviation d) then
        (let maxDev = (if numValue (deviation d) > dp_value (fst acc)
                       then \<lparr>dp_height = Fin (height d), dp_value = numValue (deviation d)\<rparr>
                       else fst acc);
             minDev = (if numValue (deviation d) < dp_value (snd acc)
                       then \<lparr>dp_height = Fin (height d), dp_value = numValue (deviation d)\<rparr>
                       else snd acc)
         in (maxDev, minDev))
      else acc)"

definition calculateStats :: "ProcessedData list \<Rightarrow> ValidationStats" where
  "calculateStats data =
     (let validDeviations = map numValue (filter validDeviation (map deviation data));
          total = length validDeviations
      in if total = 0 then zeroStats
         else
           (let average = divideByCount
                            (foldl (\<lambda>sum dev. js_add sum (Some dev)) (Some (Fin 0)) validDeviations)
                            total;
                extrema = foldl statsStep
                            (\<lparr>dp_height = NegInfinity, dp_value = NegInfinity\<rparr>,
                             \<lparr>dp_height = PosInfinity, dp_value = PosInfinity\<rparr>) data
            in \<lparr>totalMeasurements = total, averageDeviation = average,
                maxDeviation = fst extrema, minDeviation = snd extrema\<rparr>))"

section \<open>Delivery validation\<close>

text \<open>
  One turn of the \<^verbatim>\<open>for\<close> loop of \<^verbatim>\<open>calculateDeliveryValidation\<close> at index \<open>i\<close>; the loop
  runs \<open>i\<close> from 1 while \<open>i < deliveryPoints.length\<close>, so both reads are in range.
\<close>

definition deliveryStep ::
  "DeliveryPoint list \<Rightarrow> ProcessedData list \<Rightarrow> DeliveryValidationData list \<Rightarrow> nat \<Rightarrow> DeliveryValidationData list" where
  "deliveryStep deliveryPoints chartData acc i =
     (let hBefore = dip_height (deliveryPoints ! (i - 1));
          hAfter = dip_height (deliveryPoints ! i);
          reported = delivery (deliveryPoints ! i)
      in if reported = 0 \<and> i > 0 then acc
         else
           (let volumeBefore = interpolate hBefore chartData;
                volumeAfter = interpolate hAfter chartData;
                chartCalculated = volumeAfter - volumeBefore
            in acc @ [\<lparr>heightBefore = hBefore, heightAfter = hAfter,
                       reportedDelivery = reported,
                       chartCalculatedDelivery = chartCalculated,
                       dv_deviation = reported - chartCalculated\<rparr>]))"

definition deliveryStatsStep ::
  "DeviationPoint \<times> DeviationPoint \<Rightarrow> DeliveryValidationData \<Rightarrow> DeviationPoint \<times> DeviationPoint" where
  "deliveryStatsStep acc d =
     (let maxDev = (if num_gt (dv_deviation d) (dp_value (fst acc))
                    then \<lparr>dp_height = Fin (heightAfter d), dp_value = Fin (dv_deviation d)\<rparr>
                    else fst acc);
          minDev = (if num_lt (dv_deviation d) (dp_value (snd acc))
                    then \<lparr>dp_height = Fin (heightAfter d), dp_value = Fin (dv_deviation d)\<rparr>
                    else snd acc)
      in (maxDev, minDev))"

definition calculateDeliveryValidation :: "DeliveryPoint list \<Rightarrow> ProcessedData list \<Rightarrow> DeliveryResult" where
  "calculateDeliveryValidation deliveryPoints chartData =
     (let records = foldl (deliveryStep deliveryPoints chartData) [] [1..<length deliveryPoints];
          totalDeliveries = length records
      in if totalDeliveries = 0 then \<lparr>deliveryData = [], stats = zeroStats\<rparr>
         else
           (let deviations = map dv_deviation records;
                average = foldl (+) 0 deviations / real totalDeliveries;
                extrema = foldl deliveryStatsStep
                            (\<lparr>dp_height = Fin (- 1), dp_value = NegInfinity\<rparr>,
                             \<lparr>dp_height = Fin (- 1), dp_value = PosInfinity\<rparr>) records
            in \<lparr>deliveryData = records,
                stats = \<lparr>totalMeasurements = totalDeliveries,
                          averageDeviation = Some (Fin average),
                          maxDeviation = fst extrema, minDeviation = snd extrema\<rparr>\<rparr>))"

section \<open>Text and numerals\<close>

text \<open>
  A string is a list of characters, read as code units below 256. The white space of
  \<^verbatim>\<open>trim\<close>, of \<^verbatim>\<open>\s\<close> and of \<^verbatim>\<open>parseFloat\<close> is then tab, line feed, vertical tab, form
  feed, carriage return, space and no-break space.
\<close>

definition isWhiteSpace :: "char \<Rightarrow> bool" where
  "isWhiteSpace c \<longleftrightarrow>
     c \<in> set [CHR 0x09, CHR 0x0A, CHR 0x0B, CHR 0x0C, CHR 0x0D, CHR 0x20, CHR 0xA0]"

definition trim :: "string \<Rightarrow> string" where
  "trim s = rev (dropWhile isWhiteSpace (rev (dropWhile isWhiteSpace s)))"

text \<open>
  \<^verbatim>\<open>toUpperCase\<close> on the letters a to z. The source compares the result with a tag of
  capital letters, brackets and underscores, and matches headers with \<^verbatim>\<open>/i\<close> patterns of
  letters and a space; no other character of the model maps onto one of these.
\<close>

definition upperChar :: "char \<Rightarrow> char" where
  "upperChar c =
     (case map_of (zip ''abcdefghijklmnopqrstuvwxyz'' ''ABCDEFGHIJKLMNOPQRSTUVWXYZ'') c of
        Some u \<Rightarrow> u
      | None \<Rightarrow> c)"

definition toUpperCase :: "string \<Rightarrow> string" where
  "toUpperCase s = map upperChar s"

text \<open>
  \<^verbatim>\<open>split(/\r?\n/)\<close>, \<^verbatim>\<open>split(delimiter)\<close> and \<^verbatim>\<open>split(/\s+/)\<close>. Each returns at least one
  piece; \<open>consHead\<close> puts a character in front of the first piece.
\<close>

fun consHead :: "char \<Rightarrow> string list \<Rightarrow> string list" where
  "consHead c [] = [[c]]"
| "consHead c (l # ls) = (c # l) # ls"

fun splitLines :: "string \<Rightarrow> string list" where
  "splitLines [] = [[]]"
| "splitLines [c] = (if c = CHR 0x0A then [[], []] else [[c]])"
| "splitLines (c # d # cs) =
     (if c = CHR 0x0A then [] # splitLines (d # cs)
      else if c = CHR 0x0D \<and> d = CHR 0x0A then [] # splitLines cs
      else consHead c (splitLines (d # cs)))"

fun splitOn :: "char \<Rightarrow> string \<Rightarrow> string list" where
  "splitOn delimiter [] = [[]]"
| "splitOn delimiter (c # cs) =
     (if c = delimiter then [] # splitOn delimiter cs
      else consHead c (splitOn delimiter cs))"

function splitWhitespace :: "string \<Rightarrow> string list" where
  "splitWhitespace [] = [[]]"
| "splitWhitespace (c # cs) =
     (if isWhiteSpace c then [] # splitWhitespace (dropWhile isWhiteSpace cs)
      else consHead c (splitWhitespace cs))"
  by pat_completeness auto
termination
  by (relation "measure length") (auto simp: length_dropWhile_le less_Suc_eq_le)

text \<open>
  \<^verbatim>\<open>parseFloat\<close> reads the longest prefix that is a decimal literal: an optional sign,
  digits with an optional fraction (or a fraction alone), and an exponent when one is
  complete, or the literal \<^verbatim>\<open>Infinity\<close> after the optional sign. A numeral has its exact
  value unless it overflows to an infinity; \<open>None\<close> is \<^verbatim>\<open>NaN\<close>.
\<close>

definition isDigit :: "char \<Rightarrow> bool" where
  "isDigit c \<longleftrightarrow> c \<in> set ''0123456789''"

definition digitValue :: "char \<Rightarrow> nat" where
  "digitValue c = of_char c - 48"

definition digitsValue :: "string \<Rightarrow> nat" where
  "digitsValue ds = foldl (\<lambda>n c. 10 * n + digitValue c) 0 ds"

definition scale10 :: "real \<Rightarrow> int \<Rightarrow> real" where
  "scale10 x e = (if 0 \<le> e then x * 10 ^ nat e else x / 10 ^ nat (- e))"

definition exponentPart :: "string \<Rightarrow> (int \<times> string) option" where
  "exponentPart s =
     (case s of
        [] \<Rightarrow> None
      | c # cs \<Rightarrow>
          if c = CHR ''e'' \<or> c = CHR ''E'' then
            (let (neg, ds) = (case cs of
                                [] \<Rightarrow> (False, cs)
                              | d # ds' \<Rightarrow> if d = CHR ''-'' then (True, ds')
                                           else if d = CHR ''+'' then (False, ds')
                                           else (False, cs))
             in if takeWhile isDigit ds = [] then None
                else Some ((if neg then - int (digitsValue (takeWhile isDigit ds))
                            else int (digitsValue (takeWhile isDigit ds))),
                           dropWhile isDigit ds))
          else None)"

definition decimalPrefix :: "string \<Rightarrow> (extnum \<times> string) option" where
  "decimalPrefix s =
     (let (neg, body) = (case s of
                           [] \<Rightarrow> (False, s)
                         | c # cs \<Rightarrow> if c = CHR ''-'' then (True, cs)
                                     else if c = CHR ''+'' then (False, cs)
                                     else (False, s));
          intDigits = takeWhile isDigit body;
          afterInt = dropWhile isDigit body;
          (fracDigits, afterFrac) =
            (case afterInt of
               [] \<Rightarrow> ([], afterInt)
             | c # cs \<Rightarrow> if c = CHR ''.'' then (takeWhile isDigit cs, dropWhile isDigit cs)
                         else ([], afterInt))
      in if take 8 body = ''Infinity'' then
           Some (if neg then NegInfinity else PosInfinity, drop 8 body)
         else if intDigits = [] \<and> fracDigits = [] then None
         else
           (let mantissa = real (digitsValue intDigits)
                             + real (digitsValue fracDigits) / 10 ^ length fracDigits;
                (e, rest) = (case exponentPart afterFrac of
                               None \<Rightarrow> (0, afterFrac)
                             | Some (e, r) \<Rightarrow> (e, r));
                v = scale10 mantissa e
            in Some (roundOverflow (if neg then - v else v), rest)))"

definition parseFloat :: "string \<Rightarrow> extnum option" where
  "parseFloat s = map_option fst (decimalPrefix (dropWhile isWhiteSpace s))"

text \<open>
  \<^verbatim>\<open>Number(s)\<close> on a string: the empty string is 0, a decimal literal (or a signed
  \<^verbatim>\<open>Infinity\<close>) that fills the whole trimmed string is its value, anything else is
  \<^verbatim>\<open>NaN\<close>. Literals with a radix prefix are not read here: a cell that starts with the
  digit 0 never stays a string.
\<close>

definition stringToNumber :: "string \<Rightarrow> extnum option" where
  "stringToNumber s =
     (if trim s = [] then Some (Fin 0)
      else (case decimalPrefix (trim s) of
              Some (v, []) \<Rightarrow> Some v
            | _ \<Rightarrow> None))"

section \<open>Dialect parser\<close>

text \<open>A cell is \<^verbatim>\<open>string | number\<close>; each \<^verbatim>\<open>throw new Error(...)\<close> of the source is an \<open>error\<close>.\<close>

datatype cell = CNum extnum | CStr string

datatype error =
    EmptyFile
  | FusionTooShort
  | CsvNoDataRow
  | NoDataRows
  | ColumnsNotDetected
  | NoValidNumericData
  | ValidationColumnsMissing
  | NoValidationPoints
  | DeliveryColumnsMissing
  | TooFewDeliveryPoints
  | UnknownValidationType

definition toCell :: "string \<Rightarrow> cell" where
  "toCell field =
     (case parseFloat (trim field) of
        None \<Rightarrow> CStr (trim field)
      | Some num \<Rightarrow> CNum num)"

definition parseFileContent :: "string \<Rightarrow> error + (string list \<times> cell list list)" where
  "parseFileContent text =
     (let trimmedText = trim text
      in if trimmedText = [] then Inl EmptyFile
         else
           (let lines = splitLines trimmedText
            in if toUpperCase (trim (lines ! 0)) = ''[FUSION_ATG_TANK_TABLE]'' then
                 (if length lines < 3 then Inl FusionTooShort
                  else
                    (let headerLine = lines ! 1;
                         dataLines = drop 2 lines;
                         headers = map trim (splitWhitespace headerLine);
                         data = map (\<lambda>line. map toCell (splitWhitespace (trim line))) dataLines
                     in Inr (headers, data)))
               else
                 (let delimiter = (if CHR '';'' \<in> set (lines ! 0) then CHR '';'' else CHR '','');
                      firstLineFields = splitOn delimiter (lines ! 0);
                      firstLineIsHeader =
                        list_ex (\<lambda>field. parseFloat (trim field) = None) firstLineFields
                  in if firstLineIsHeader then
                       (if length lines < 2 then Inl CsvNoDataRow
                        else
                          (let headers = map trim (splitOn delimiter (lines ! 0));
                               data = map (\<lambda>line. map toCell (splitOn delimiter line)) (drop 1 lines)
                           in Inr (headers, data)))
                     else
                       (let headers = [''Height'', ''Volume''];
                            data = map (\<lambda>line. map toCell (take 2 (splitOn delimiter line))) lines
                        in if length data = 0 then Inl NoDataRows
                           else Inr (headers, data)))))"

section \<open>Header mapper\<close>

text \<open>
  A pattern such as \<^verbatim>\<open>/height|depth|level|dip/i\<close> is the list of its alternatives;
  \<open>regexTest\<close> holds when one of them occurs in the header, letter case ignored.
  \<open>truthy\<close> and \<open>orElse\<close> are the tests \<^verbatim>\<open>if (x)\<close> and \<^verbatim>\<open>x || y\<close> on a
  \<^verbatim>\<open>string | undefined\<close>.
\<close>

fun includesStr :: "string \<Rightarrow> string \<Rightarrow> bool" where
  "includesStr [] pat = (pat = [])"
| "includesStr (c # cs) pat = (take (length pat) (c # cs) = pat \<or> includesStr cs pat)"

definition regexTest :: "string list \<Rightarrow> string \<Rightarrow> bool" where
  "regexTest alternatives h =
     list_ex (\<lambda>alt. includesStr (toUpperCase h) (toUpperCase alt)) alternatives"

definition heightRegex :: "string list" where
  "heightRegex = [''height'', ''depth'', ''level'', ''dip'']"

definition volumeRegex :: "string list" where
  "volumeRegex = [''volume'', ''capacity'', ''liters'', ''gallons'', ''Ltrs'']"

definition fieldVolumeRegex :: "string list" where
  "fieldVolumeRegex = [''field'', ''actual'', ''measured'', ''site'']"

definition deliveryRegex :: "string list" where
  "deliveryRegex = [''delivery'', ''delivered'', ''fuel delivery'']"

definition truthy :: "string option \<Rightarrow> bool" where
  "truthy v = (case v of None \<Rightarrow> False | Some s \<Rightarrow> s \<noteq> [])"

definition orElse :: "string option \<Rightarrow> string option \<Rightarrow> string option" where
  "orElse a b = (if truthy a then a else b)"

record HeaderMapping =
  heightHeader :: string
  volumeHeader :: "string option"
  fieldVolumeHeader :: "string option"
  deliveryHeader :: "string option"

definition findHeaders :: "string list \<Rightarrow> HeaderMapping option" where
  "findHeaders headers =
     (let heightH = find (\<lambda>h. regexTest heightRegex h) headers;
          volumeH = orElse (find (\<lambda>h. regexTest volumeRegex h \<and> \<not> regexTest fieldVolumeRegex h) headers)
                           (find (\<lambda>h. regexTest volumeRegex h) headers);
          fieldVolumeH = find (\<lambda>h. regexTest fieldVolumeRegex h \<and> regexTest volumeRegex h) headers;
          deliveryH = find (\<lambda>h. regexTest deliveryRegex h) headers
      in if truthy heightH \<and> (truthy volumeH \<or> truthy deliveryH)
         then Some \<lparr>heightHeader = the heightH, volumeHeader = volumeH,
                     fieldVolumeHeader = fieldVolumeH, deliveryHeader = deliveryH\<rparr>
         else None)"

section \<open>Record normalizer and the pipelines\<close>

text \<open>
  \<^verbatim>\<open>headerList.indexOf(h)\<close> is -1 when \<open>h\<close> is missing; \<^verbatim>\<open>row[i]\<close> is \<^verbatim>\<open>undefined\<close> out of
  range, and \<^verbatim>\<open>Number(undefined)\<close> is \<^verbatim>\<open>NaN\<close>.
\<close>

fun indexOf :: "string list \<Rightarrow> string \<Rightarrow> int" where
  "indexOf [] x = - 1"
| "indexOf (y # ys) x =
     (if y = x then 0 else (let i = indexOf ys x in if i = - 1 then - 1 else i + 1))"

definition cellAt :: "cell list \<Rightarrow> int \<Rightarrow> cell option" where
  "cellAt row i = (if 0 \<le> i \<and> i < int (length row) then Some (row ! nat i) else None)"

fun toNumber :: "cell option \<Rightarrow> extnum option" where
  "toNumber None = None"
| "toNumber (Some (CNum n)) = Some n"
| "toNumber (Some (CStr s)) = stringToNumber s"

datatype columnOrder = HeightVolume | VolumeHeight

record InitialConfig =
  cfg_heightHeader :: string
  cfg_volumeHeader :: string
  cfg_columnOrder :: columnOrder
  cfg_decimalPlaces :: nat

record AnalysisResult =
  ar_data :: "ProcessedData list"
  ar_stats :: "ValidationStats option"
  ar_initialConfig :: InitialConfig

text \<open>
  The callback of \<^verbatim>\<open>rawData.map\<close> in \<^verbatim>\<open>processAndAnalyzeData\<close>; \<open>None\<close> is its \<^verbatim>\<open>null\<close>.
  A row whose height or chart volume is infinite is kept by the code; it is
  \<open>HasInfinity\<close> here.
\<close>

definition toProcessedData :: "int \<Rightarrow> int \<Rightarrow> int \<Rightarrow> cell list \<Rightarrow> ProcessedData real_valued option" where
  "toProcessedData heightIndex volumeIndex fieldVolumeIndex row =
     (let h = toNumber (cellAt row heightIndex);
          v = toNumber (cellAt row volumeIndex);
          fv = (if fieldVolumeIndex \<noteq> - 1
                then toOptnum (toNumber (cellAt row fieldVolumeIndex))
                else Undefined)
      in case (h, v) of
           (Some (Fin hn), Some (Fin vn)) \<Rightarrow>
             Some (RealValued
               \<lparr>height = hn, chartVolume = vn, fieldVolume = fv,
                deviation = (if fv \<noteq> Undefined \<and> \<not> isNaN fv
                             then toOptnum (js_sub (Some (numValue fv)) (Some (Fin vn)))
                             else Undefined)\<rparr>)
         | (Some hn, Some vn) \<Rightarrow> Some HasInfinity
         | _ \<Rightarrow> None)"

definition processAndAnalyzeData :: "string \<Rightarrow> error + AnalysisResult real_valued" where
  "processAndAnalyzeData fileText =
     (case parseFileContent fileText of
        Inl e \<Rightarrow> Inl e
      | Inr (headerList, rawData) \<Rightarrow>
          (case findHeaders headerList of
             None \<Rightarrow> Inl ColumnsNotDetected
           | Some headers \<Rightarrow>
               if \<not> truthy (volumeHeader headers) then Inl ColumnsNotDetected
               else
                 (let heightIndex = indexOf headerList (heightHeader headers);
                      volumeIndex = indexOf headerList (the (volumeHeader headers));
                      fieldVolumeIndex =
                        (if truthy (fieldVolumeHeader headers)
                         then indexOf headerList (the (fieldVolumeHeader headers)) else - 1);
                      data = List.map_filter
                               (toProcessedData heightIndex volumeIndex fieldVolumeIndex) rawData
                  in if length data = 0 then Inl NoValidNumericData
                     else
                       (case allRealValued data of
                          None \<Rightarrow> Inr HasInfinity
                        | Some records \<Rightarrow>
                            Inr (RealValued
                              \<lparr>ar_data = records,
                               ar_stats = (if truthy (fieldVolumeHeader headers)
                                           then Some (calculateStats records) else None),
                               ar_initialConfig =
                                 \<lparr>cfg_heightHeader = heightHeader headers,
                                  cfg_volumeHeader = the (volumeHeader headers),
                                  cfg_columnOrder = HeightVolume, cfg_decimalPlaces = 2\<rparr>\<rparr>)))))"

text \<open>
  The rows of a delivery file as dip readings: \<^verbatim>\<open>rawData.map(...).filter(...)\<close> of
  \<^verbatim>\<open>processDeliveryValidation\<close>. The filter drops a row with a \<^verbatim>\<open>NaN\<close> and keeps one
  with an infinite number, which is \<open>HasInfinity\<close> here.
\<close>

definition toDeliveryPoint :: "int \<Rightarrow> int \<Rightarrow> cell list \<Rightarrow> DeliveryPoint real_valued option" where
  "toDeliveryPoint heightIndex deliveryIndex row =
     (case (toNumber (cellAt row heightIndex), toNumber (cellAt row deliveryIndex)) of
        (Some (Fin h), Some (Fin d)) \<Rightarrow> Some (RealValued \<lparr>dip_height = h, delivery = d\<rparr>)
      | (Some h, Some d) \<Rightarrow> Some HasInfinity
      | _ \<Rightarrow> None)"

definition deliveryPointsOf ::
  "string list \<Rightarrow> HeaderMapping \<Rightarrow> cell list list \<Rightarrow> DeliveryPoint real_valued list" where
  "deliveryPointsOf headerList headers rawData =
     (let heightIndex = indexOf headerList (heightHeader headers);
          deliveryIndex = indexOf headerList (the (deliveryHeader headers))
      in List.map_filter (toDeliveryPoint heightIndex deliveryIndex) rawData)"

definition processDeliveryValidation ::
  "string \<Rightarrow> ProcessedData list \<Rightarrow> error + DeliveryResult real_valued" where
  "processDeliveryValidation validationFileText chartData =
     (case parseFileContent validationFileText of
        Inl e \<Rightarrow> Inl e
      | Inr (headerList, rawData) \<Rightarrow>
          (case findHeaders headerList of
             None \<Rightarrow> Inl DeliveryColumnsMissing
           | Some headers \<Rightarrow>
               if \<not> truthy (deliveryHeader headers) then Inl DeliveryColumnsMissing
               else
                 (let deliveryPoints = deliveryPointsOf headerList headers rawData
                  in if length deliveryPoints < 2 then Inl TooFewDeliveryPoints
                     else
                       (case allRealValued deliveryPoints of
                          None \<Rightarrow> Inr HasInfinity
                        | Some points \<Rightarrow>
                            Inr (RealValued (calculateDeliveryValidation points chartData))))))"

text \<open>
  The \<^verbatim>\<open>try\<close> block of \<^verbatim>\<open>handleManualValidationSubmit\<close> in the application component,
  the caller of \<^verbatim>\<open>calculateDeliveryValidation\<close> for manually entered points. The updates of
  the component state are left out.
\<close>

definition handleManualValidationSubmit :: "DeliveryPoint list \<Rightarrow> ProcessedData list \<Rightarrow> error + DeliveryResult" where
  "handleManualValidationSubmit points processedData =
     (if length points < 2 then Inl TooFewDeliveryPoints
      else Inr (calculateDeliveryValidation points processedData))"

record ValidationPoint =
  vp_height :: real
  vp_fieldVolume :: extnum

record PointResult =
  combinedData :: "ProcessedData list"
  pv_stats :: ValidationStats

definition toValidationPoint :: "int \<Rightarrow> int \<Rightarrow> cell list \<Rightarrow> ValidationPoint real_valued option" where
  "toValidationPoint heightIndex volumeIndex row =
     (case (toNumber (cellAt row heightIndex), toNumber (cellAt row volumeIndex)) of
        (Some (Fin h), Some v) \<Rightarrow> Some (RealValued \<lparr>vp_height = h, vp_fieldVolume = v\<rparr>)
      | (Some h, Some v) \<Rightarrow> Some HasInfinity
      | _ \<Rightarrow> None)"

definition processPointValidation ::
  "string \<Rightarrow> ProcessedData list \<Rightarrow> error + PointResult real_valued" where
  "processPointValidation validationFileText chartData =
     (case parseFileContent validationFileText of
        Inl e \<Rightarrow> Inl e
      | Inr (headerList, rawData) \<Rightarrow>
          (case findHeaders headerList of
             None \<Rightarrow> Inl ValidationColumnsMissing
           | Some headers \<Rightarrow>
               if \<not> truthy (volumeHeader headers) then Inl ValidationColumnsMissing
               else
                 (let heightIndex = indexOf headerList (heightHeader headers);
                      volumeIndex = indexOf headerList (the (volumeHeader headers));
                      validationPoints =
                        List.map_filter (toValidationPoint heightIndex volumeIndex) rawData
                  in if length validationPoints = 0 then Inl NoValidationPoints
                     else
                       (case allRealValued validationPoints of
                          None \<Rightarrow> Inr HasInfinity
                        | Some points \<Rightarrow>
                            (let combined = map (\<lambda>vp.
                                   (let cv = interpolate (vp_height vp) chartData
                                    in \<lparr>height = vp_height vp, chartVolume = cv,
                                        fieldVolume = Num (vp_fieldVolume vp),
                                        deviation =
                                          toOptnum (js_sub (Some (vp_fieldVolume vp))
                                                           (Some (Fin cv)))\<rparr>))
                                   points
                             in Inr (RealValued \<lparr>combinedData = combined,
                                                  pv_stats = calculateStats combined\<rparr>))))))"

datatype ValidationResult = PointValidation PointResult | DeliveryValidation DeliveryResult

definition processValidationData ::
  "string \<Rightarrow> ProcessedData list \<Rightarrow> error + ValidationResult real_valued" where
  "processValidationData validationFileText chartData =
     (case parseFileContent validationFileText of
        Inl e \<Rightarrow> Inl e
      | Inr (headerList, rawData) \<Rightarrow>
          (let headers = findHeaders headerList
           in if (case headers of None \<Rightarrow> False | Some m \<Rightarrow> truthy (deliveryHeader m)) then
                (case processDeliveryValidation validationFileText chartData of
                   Inl e \<Rightarrow> Inl e
                 | Inr HasInfinity \<Rightarrow> Inr HasInfinity
                 | Inr (RealValued result) \<Rightarrow> Inr (RealValued (DeliveryValidation result)))
              else if (case headers of None \<Rightarrow> False | Some m \<Rightarrow> truthy (volumeHeader m)) then
                (case processPointValidation validationFileText chartData of
                   Inl e \<Rightarrow> Inl e
                 | Inr HasInfinity \<Rightarrow> Inr HasInfinity
                 | Inr (RealValued result) \<Rightarrow> Inr (RealValued (PointValidation result)))
              else Inl UnknownValidationType))"

section \<open>Auxiliary definitions for the statements\<close>

text \<open>A bare calibration point: the optional fields are absent.\<close>

definition calibrationPoint :: "real \<Rightarrow> real \<Rightarrow> ProcessedData" where
  "calibrationPoint h v =
     \<lparr>height = h, chartVolume = v, fieldVolume = Undefined, deviation = Undefined\<rparr>"

text \<open>The record that the delivery loop pushes at index \<open>i\<close> when it does not skip.\<close>

definition deliveryRecord :: "DeliveryPoint list \<Rightarrow> ProcessedData list \<Rightarrow> nat \<Rightarrow> DeliveryValidationData" where
  "deliveryRecord pts chart i =
     \<lparr>heightBefore = dip_height (pts ! (i - 1)), heightAfter = dip_height (pts ! i),
      reportedDelivery = delivery (pts ! i),
      chartCalculatedDelivery =
        interpolate (dip_height (pts ! i)) chart - interpolate (dip_height (pts ! (i - 1))) chart,
      dv_deviation =
        delivery (pts ! i)
          - (interpolate (dip_height (pts ! i)) chart - interpolate (dip_height (pts ! (i - 1))) chart)\<rparr>"





section \<open>The interpolator outside the curve and at its knots\<close>

lemma interpolate_Nil: "interpolate h [] = 0"
  by (simp add: interpolate_def)

lemma find_filter: "find P xs = (case filter P xs of [] \<Rightarrow> None | x # _ \<Rightarrow> Some x)"
  by (induction xs) simp_all

text \<open>
  Claim C1. For a non-empty curve and a target height strictly below every height of the
  curve, or strictly above every one, \<open>interpolate\<close> returns the chart volume of the first
  point of the sorted curve.
\<close>

theorem interpolate_outside_range:
  assumes "chartData \<noteq> []"
    and "(\<forall>p\<in>set chartData. h < height p) \<or> (\<forall>p\<in>set chartData. height p < h)"
  shows "interpolate h chartData = chartVolume (hd (sort_key height chartData))"
proof -
  let ?s = "sort_key height chartData"
  have ne: "?s \<noteq> []"
    using assms(1) by (metis set_sort set_empty)
  have "find (\<lambda>p. height p \<ge> h) ?s = None \<or> find (\<lambda>p. height p \<le> h) (rev ?s) = None"
    using assms(2) by (auto simp: find_None_iff)
  then show ?thesis
    using ne by (auto simp: interpolate_def Let_def split: option.splits list.splits)
qed

theorem interpolate_outside_range_witness:
  "interpolate 11 [calibrationPoint 10 100, calibrationPoint 0 7] = 7 \<and>
   interpolate (- 1) [calibrationPoint 10 100, calibrationPoint 0 7] = 7"
  using interpolate_outside_range [of "[calibrationPoint 10 100, calibrationPoint 0 7]" 11]
    interpolate_outside_range [of "[calibrationPoint 10 100, calibrationPoint 0 7]" "- 1"]
  by (simp add: calibrationPoint_def)

text \<open>In a sorted curve the first point at or above a knot height is the first point at it.\<close>

lemma upper_at_knot:
  "sorted (map height s) \<Longrightarrow> p \<in> set s \<Longrightarrow>
   find (\<lambda>q. height p \<le> height q) s = find (\<lambda>q. height q = height p) s"
proof (induction s)
  case Nil
  then show ?case by simp
next
  case (Cons x xs)
  show ?case
  proof (cases "height x < height p")
    case True
    with Cons show ?thesis by auto
  next
    case False
    have "height x \<le> height p"
      using Cons.prems by auto
    with False show ?thesis by simp
  qed
qed

lemma lower_at_knot:
  "sorted (map height s) \<Longrightarrow> p \<in> set s \<Longrightarrow>
   \<exists>l. find (\<lambda>q. height q \<le> height p) (rev s) = Some l \<and> height l = height p"
proof (induction s rule: rev_induct)
  case Nil
  then show ?case by simp
next
  case (snoc x xs)
  have srt: "sorted (map height xs)" and mx: "\<forall>q\<in>set xs. height q \<le> height x"
    using snoc.prems(1) by (auto simp: sorted_append)
  show ?case
  proof (cases "height x \<le> height p")
    case True
    moreover have "height p \<le> height x"
      using snoc.prems(2) mx by auto
    ultimately show ?thesis by simp
  next
    case False
    then have "p \<in> set xs"
      using snoc.prems(2) by auto
    with snoc.IH srt False show ?thesis by simp
  qed
qed

lemma interpolate_knot:
  assumes "p \<in> set chartData"
  shows "\<exists>q. find (\<lambda>q. height q = height p) chartData = Some q \<and>
             interpolate (height p) chartData = chartVolume q"
proof -
  let ?s = "sort_key height chartData"
  have srt: "sorted (map height ?s)" and mem: "p \<in> set ?s"
    using assms by simp_all
  have "find (\<lambda>q. height q = height p) ?s = find (\<lambda>q. height q = height p) chartData"
    by (simp add: find_filter sort_key_stable)
  then have up: "find (\<lambda>q. height p \<le> height q) ?s = find (\<lambda>q. height q = height p) chartData"
    using upper_at_knot [OF srt mem] by simp
  obtain u where u: "find (\<lambda>q. height q = height p) chartData = Some u"
    using assms by (cases "find (\<lambda>q. height q = height p) chartData") (auto simp: find_None_iff)
  then have hu: "height u = height p"
    by (auto simp: find_Some_iff)
  obtain l where l: "find (\<lambda>q. height q \<le> height p) (rev ?s) = Some l" "height l = height p"
    using lower_at_knot [OF srt mem] by blast
  have "interpolate (height p) chartData = chartVolume u"
    using up u l hu by (simp add: interpolate_def Let_def)
  with u show ?thesis by simp
qed

text \<open>
  Claim C4, as the code has it. At the height of a point \<open>p\<close> of the curve, \<open>interpolate\<close>
  returns the chart volume of the first point of the curve, in input order, that has the
  height of \<open>p\<close>. It is the chart volume of \<open>p\<close> itself whenever every point of the curve
  at that height carries the volume of \<open>p\<close>, in particular when no other point shares the
  height.
\<close>

theorem interpolate_at_knot:
  assumes "p \<in> set chartData"
  shows "(\<exists>q. find (\<lambda>q. height q = height p) chartData = Some q \<and>
              interpolate (height p) chartData = chartVolume q) \<and>
         ((\<forall>q\<in>set chartData. height q = height p \<longrightarrow> chartVolume q = chartVolume p) \<longrightarrow>
              interpolate (height p) chartData = chartVolume p)"
proof -
  obtain q where q: "find (\<lambda>q. height q = height p) chartData = Some q"
     "interpolate (height p) chartData = chartVolume q"
    using interpolate_knot [OF assms] by blast
  then have "q \<in> set chartData" "height q = height p"
    by (auto simp: find_Some_iff)
  with q show ?thesis by auto
qed

theorem interpolate_at_knot_witness:
  "calibrationPoint 100 1000 \<in> set [calibrationPoint 0 0, calibrationPoint 100 1000] \<and>
   interpolate 100 [calibrationPoint 0 0, calibrationPoint 100 1000] = 1000"
  using interpolate_at_knot
    [of "calibrationPoint 100 1000" "[calibrationPoint 0 0, calibrationPoint 100 1000]"]
  by (simp add: calibrationPoint_def)

text \<open>
  The claim as written fails on a curve with a duplicated height: the second of two
  points at height 1 is a member of the curve, and the interpolator answers with the
  volume of the first.
\<close>

theorem interpolate_at_knot_counterexample:
  "interpolate (height (calibrationPoint 1 20)) [calibrationPoint 1 10, calibrationPoint 1 20]
     \<noteq> chartVolume (calibrationPoint 1 20)"
  by (simp add: interpolate_def calibrationPoint_def)

section \<open>The resampler's guard\<close>





section \<open>Records of delivery validation\<close>

lemma foldl_deliveryStep:
  "foldl (deliveryStep pts chart) acc is =
     acc @ map (deliveryRecord pts chart) (filter (\<lambda>i. \<not> (delivery (pts ! i) = 0 \<and> i > 0)) is)"
  by (induction "is" arbitrary: acc) (simp_all add: deliveryStep_def deliveryRecord_def Let_def)

lemma deliveryData_eq:
  "deliveryData (calculateDeliveryValidation pts chart) =
     map (deliveryRecord pts chart) (filter (\<lambda>i. delivery (pts ! i) \<noteq> 0) [1..<length pts])"
proof -
  have "filter (\<lambda>i. \<not> (delivery (pts ! i) = 0 \<and> i > 0)) [1..<length pts]
        = filter (\<lambda>i. delivery (pts ! i) \<noteq> 0) [1..<length pts]"
    by (rule filter_cong) auto
  then show ?thesis
    by (simp add: calculateDeliveryValidation_def Let_def foldl_deliveryStep)
qed

text \<open>
  Claim C5. The records of delivery validation are, in sequence order, one record for
  every index \<open>i \<ge> 1\<close> whose reading has a non-zero delivery, with the height of reading
  \<open>i - 1\<close> before, the height of reading \<open>i\<close> after and the delivery of reading \<open>i\<close>;
  an index whose reading has delivery 0 gives no record. On the readings
  (100,0), (200,5000), (400,7300) that is the two records (100,200,5000) and
  (200,400,7300), whatever the chart.
\<close>

theorem delivery_records:
  "map (\<lambda>d. (heightBefore d, heightAfter d, reportedDelivery d))
       (deliveryData (calculateDeliveryValidation pts chart))
   = map (\<lambda>i. (dip_height (pts ! (i - 1)), dip_height (pts ! i), delivery (pts ! i)))
       (filter (\<lambda>i. delivery (pts ! i) \<noteq> 0) [1..<length pts])
   \<and>
   map (\<lambda>d. (heightBefore d, heightAfter d, reportedDelivery d))
       (deliveryData (calculateDeliveryValidation
          [\<lparr>dip_height = 100, delivery = 0\<rparr>, \<lparr>dip_height = 200, delivery = 5000\<rparr>,
           \<lparr>dip_height = 400, delivery = 7300\<rparr>] chart))
   = [(100, 200, 5000), (200, 400, 7300)]"
proof (rule conjI)
  show "map (\<lambda>d. (heightBefore d, heightAfter d, reportedDelivery d))
          (deliveryData (calculateDeliveryValidation pts chart))
        = map (\<lambda>i. (dip_height (pts ! (i - 1)), dip_height (pts ! i), delivery (pts ! i)))
            (filter (\<lambda>i. delivery (pts ! i) \<noteq> 0) [1..<length pts])"
    by (simp add: deliveryData_eq deliveryRecord_def comp_def)
next
  show "map (\<lambda>d. (heightBefore d, heightAfter d, reportedDelivery d))
       (deliveryData (calculateDeliveryValidation
          [\<lparr>dip_height = 100, delivery = 0\<rparr>, \<lparr>dip_height = 200, delivery = 5000\<rparr>,
           \<lparr>dip_height = 400, delivery = 7300\<rparr>] chart))
   = [(100, 200, 5000), (200, 400, 7300)]"
    by (simp add: deliveryData_eq deliveryRecord_def)
qed

theorem delivery_records_witness:
  "map (\<lambda>d. (heightBefore d, heightAfter d, reportedDelivery d))
       (deliveryData (calculateDeliveryValidation
          [\<lparr>dip_height = 109, delivery = 0\<rparr>, \<lparr>dip_height = 235, delivery = 7150\<rparr>,
           \<lparr>dip_height = 300, delivery = 0\<rparr>, \<lparr>dip_height = 436, delivery = 7199\<rparr>]
          [calibrationPoint 0 0, calibrationPoint 1000 20000]))
   = [(109, 235, 7150), (300, 436, 7199)]"
  using delivery_records
    [of "[\<lparr>dip_height = 109, delivery = 0\<rparr>, \<lparr>dip_height = 235, delivery = 7150\<rparr>,
          \<lparr>dip_height = 300, delivery = 0\<rparr>, \<lparr>dip_height = 436, delivery = 7199\<rparr>]"
        "[calibrationPoint 0 0, calibrationPoint 1000 20000]"]
  by simp

text \<open>
  Claim C8. On the empty curve \<open>interpolate\<close> returns 0. Delivery validation on the empty
  curve therefore returns a result (the function has no failing branch), and with at
  least 2 readings every record it emits has a chart-calculated delivery of 0 and a
  deviation equal to its reported delivery.
\<close>

theorem empty_curve_delivery:
  "interpolate h [] = 0 \<and>
   (2 \<le> length pts \<longrightarrow>
     (\<forall>d\<in>set (deliveryData (calculateDeliveryValidation pts [])).
        chartCalculatedDelivery d = 0 \<and> dv_deviation d = reportedDelivery d))"
  by (auto simp: deliveryData_eq deliveryRecord_def interpolate_Nil)

theorem empty_curve_delivery_witness:
  "interpolate 50 [] = 0 \<and>
   deliveryData (calculateDeliveryValidation
     [\<lparr>dip_height = 100, delivery = 0\<rparr>, \<lparr>dip_height = 200, delivery = 5000\<rparr>] [])
   = [\<lparr>heightBefore = 100, heightAfter = 200, reportedDelivery = 5000,
       chartCalculatedDelivery = 0, dv_deviation = 5000\<rparr>]"
  using empty_curve_delivery
    [of 50 "[\<lparr>dip_height = 100, delivery = 0\<rparr>, \<lparr>dip_height = 200, delivery = 5000\<rparr>]"]
  by (simp add: deliveryData_eq deliveryRecord_def interpolate_Nil)

section \<open>Monotonicity of the interpolator on its knots\<close>








section \<open>Statistics over the records that carry a deviation\<close>

lemma roundOverflow_small:
  assumes "\<bar>x\<bar> \<le> 1000000000000"
  shows "roundOverflow x = Fin x"
proof -
  have "(1000000000000::real) < 2 ^ 1024 - 2 ^ 970"
    by simp
  then have "x < 2 ^ 1024 - 2 ^ 970" "- (2 ^ 1024 - 2 ^ 970) < x"
    using assms by linarith+
  then show ?thesis
    by (simp add: roundOverflow_def)
qed

lemma NegInfinity_least [simp]: "NegInfinity \<le> (x::extnum)"
  by simp

lemma PosInfinity_greatest [simp]: "(x::extnum) \<le> PosInfinity"
  by (cases x) simp_all
















section \<open>The dialect parser on delimited text\<close>

lemmas text_defs =
  isWhiteSpace_def trim_def upperChar_def toUpperCase_def isDigit_def digitValue_def
  digitsValue_def scale10_def exponentPart_def decimalPrefix_def parseFloat_def
  stringToNumber_def toCell_def roundOverflow_small

lemmas header_defs =
  regexTest_def heightRegex_def volumeRegex_def fieldVolumeRegex_def deliveryRegex_def
  truthy_def orElse_def findHeaders_def

lemma consHead_nonempty: "consHead c ls \<noteq> []"
  by (cases ls) simp_all

lemma splitLines_nonempty: "splitLines s \<noteq> []"
  by (induction s rule: splitLines.induct) (simp_all add: consHead_nonempty)

lemma parse_headered:
  "parseFileContent (''Height,Volume'' @ [CHR 0x0A] @ ''1,100'' @ [CHR 0x0A] @ ''2,200'')
   = Inr ([''Height'', ''Volume''], [[CNum (Fin 1), CNum (Fin 100)], [CNum (Fin 2), CNum (Fin 200)]])"
  by (simp add: parseFileContent_def text_defs)

lemma parse_headerless:
  "parseFileContent (''1;100'' @ [CHR 0x0A] @ ''2;200'')
   = Inr ([''Height'', ''Volume''], [[CNum (Fin 1), CNum (Fin 100)], [CNum (Fin 2), CNum (Fin 200)]])"
  by (simp add: parseFileContent_def text_defs)

lemma parse_general:
  assumes "trim text \<noteq> []"
    and "lines = splitLines (trim text)"
    and "toUpperCase (trim (lines ! 0)) \<noteq> ''[FUSION_ATG_TANK_TABLE]''"
    and "delimiter = (if CHR '';'' \<in> set (lines ! 0) then CHR '';'' else CHR '','')"
    and "firstFields = splitOn delimiter (lines ! 0)"
  shows "((\<exists>f\<in>set firstFields. parseFloat (trim f) = None) \<longrightarrow>
            parseFileContent text =
              (if length lines < 2 then Inl CsvNoDataRow
               else Inr (map trim firstFields,
                         map (\<lambda>line. map toCell (splitOn delimiter line)) (tl lines)))) \<and>
         ((\<forall>f\<in>set firstFields. parseFloat (trim f) \<noteq> None) \<longrightarrow>
            parseFileContent text =
              Inr ([''Height'', ''Volume''],
                   map (\<lambda>line. map toCell (take 2 (splitOn delimiter line))) lines))"
proof -
  have ne: "lines \<noteq> []"
    using assms(2) by (simp add: splitLines_nonempty)
  have d1: "drop 1 lines = tl lines"
    by (simp add: drop_Suc)
  show ?thesis
    using assms(1,3) ne
    unfolding parseFileContent_def Let_def assms(2) [symmetric] assms(4) [symmetric]
      assms(5) [symmetric] d1
    by (auto simp: list_ex_iff)
qed

text \<open>
  Claim C7. On a text that is not blank and not a tagged table, with the delimiter chosen
  from the first line, the parser takes the first line as header row exactly when one of
  its delimiter-split fields does not parse as a number (it then fails when no line
  follows). Otherwise the headers are Height and Volume, every line, the first included,
  is a data row, and a row keeps the first two fields of its line. The text
  \<^verbatim>\<open>Height,Volume / 1,100 / 2,200\<close> gives the headers of its first line and 2 rows; the
  text \<^verbatim>\<open>1;100 / 2;200\<close> gives the synthesized headers and 2 rows.
\<close>

theorem csv_header_detection:
  assumes "trim text \<noteq> []"
    and "lines = splitLines (trim text)"
    and "toUpperCase (trim (lines ! 0)) \<noteq> ''[FUSION_ATG_TANK_TABLE]''"
    and "delimiter = (if CHR '';'' \<in> set (lines ! 0) then CHR '';'' else CHR '','')"
    and "firstFields = splitOn delimiter (lines ! 0)"
  shows "((\<exists>f\<in>set firstFields. parseFloat (trim f) = None) \<longrightarrow>
            parseFileContent text =
              (if length lines < 2 then Inl CsvNoDataRow
               else Inr (map trim firstFields,
                         map (\<lambda>line. map toCell (splitOn delimiter line)) (tl lines)))) \<and>
         ((\<forall>f\<in>set firstFields. parseFloat (trim f) \<noteq> None) \<longrightarrow>
            parseFileContent text =
              Inr ([''Height'', ''Volume''],
                   map (\<lambda>line. map toCell (take 2 (splitOn delimiter line))) lines)) \<and>
         parseFileContent (''Height,Volume'' @ [CHR 0x0A] @ ''1,100'' @ [CHR 0x0A] @ ''2,200'')
           = Inr ([''Height'', ''Volume''], [[CNum (Fin 1), CNum (Fin 100)], [CNum (Fin 2), CNum (Fin 200)]]) \<and>
         parseFileContent (''1;100'' @ [CHR 0x0A] @ ''2;200'')
           = Inr ([''Height'', ''Volume''], [[CNum (Fin 1), CNum (Fin 100)], [CNum (Fin 2), CNum (Fin 200)]])"
  using parse_general [OF assms] parse_headered parse_headerless by blast

theorem csv_header_detection_witness:
  "splitOn CHR '','' ''Dip,Volume'' = [''Dip'', ''Volume''] \<and>
   parseFloat (trim ''Dip'') = None \<and>
   parseFileContent (''Dip,Volume'' @ [CHR 0x0A] @ ''1,100;5'')
     = Inr ([''Dip'', ''Volume''], [[CNum (Fin 1), CNum (Fin 100)]]) \<and>
   splitOn CHR '';'' ''1;Infinity;7'' = [''1'', ''Infinity'', ''7''] \<and>
   map (\<lambda>f. parseFloat (trim f)) [''1'', ''Infinity'', ''7'']
     = [Some (Fin 1), Some PosInfinity, Some (Fin 7)] \<and>
   parseFileContent (''1;Infinity;7'' @ [CHR 0x0A] @ ''2;200;x'')
     = Inr ([''Height'', ''Volume''],
            [[CNum (Fin 1), CNum PosInfinity], [CNum (Fin 2), CNum (Fin 200)]])"
  using csv_header_detection
      [of "''Dip,Volume'' @ [CHR 0x0A] @ ''1,100;5''" "[''Dip,Volume'', ''1,100;5'']"
          "CHR '',''" "[''Dip'', ''Volume'']"]
    csv_header_detection
      [of "''1;Infinity;7'' @ [CHR 0x0A] @ ''2;200;x''" "[''1;Infinity;7'', ''2;200;x'']"
          "CHR '';''" "[''1'', ''Infinity'', ''7'']"]
  by (simp add: text_defs)

section \<open>The pipelines and the header mapping\<close>

lemma parse_dip_delivery:
  "parseFileContent (''Dip,Delivery'' @ [CHR 0x0A] @ ''100,0'' @ [CHR 0x0A] @ ''200,5000'')
   = Inr ([''Dip'', ''Delivery''], [[CNum (Fin 100), CNum (Fin 0)], [CNum (Fin 200), CNum (Fin 5000)]])"
  by (simp add: parseFileContent_def text_defs)

lemma parse_dip_delivery_bad_row:
  "parseFileContent (''Dip,Delivery'' @ [CHR 0x0A] @ ''100,0'' @ [CHR 0x0A] @ ''x,5000'')
   = Inr ([''Dip'', ''Delivery''], [[CNum (Fin 100), CNum (Fin 0)], [CStr ''x'', CNum (Fin 5000)]])"
  by (simp add: parseFileContent_def text_defs)

lemma headers_dip_delivery:
  "findHeaders [''Dip'', ''Delivery'']
   = Some \<lparr>heightHeader = ''Dip'', volumeHeader = None, fieldVolumeHeader = None,
            deliveryHeader = Some ''Delivery''\<rparr>"
  by (simp add: header_defs text_defs)

text \<open>
  Claim C9. When the text parses and the header mapping is absent, or is present without
  a volume header (a height header and a delivery header were found), the calibration
  pipeline \<open>processAndAnalyzeData\<close> fails with the error of undetected columns.
\<close>

theorem analyze_needs_volume_header:
  assumes "parseFileContent fileText = Inr (headerList, rawData)"
    and "findHeaders headerList = None \<or>
         (\<exists>headers. findHeaders headerList = Some headers \<and> volumeHeader headers = None)"
  shows "processAndAnalyzeData fileText = Inl ColumnsNotDetected"
  using assms by (auto simp: processAndAnalyzeData_def truthy_def)

theorem analyze_needs_volume_header_witness:
  "parseFileContent (''Dip,Delivery'' @ [CHR 0x0A] @ ''100,0'' @ [CHR 0x0A] @ ''200,5000'')
     = Inr ([''Dip'', ''Delivery''], [[CNum (Fin 100), CNum (Fin 0)], [CNum (Fin 200), CNum (Fin 5000)]]) \<and>
   findHeaders [''Dip'', ''Delivery'']
     = Some \<lparr>heightHeader = ''Dip'', volumeHeader = None, fieldVolumeHeader = None,
              deliveryHeader = Some ''Delivery''\<rparr> \<and>
   processAndAnalyzeData (''Dip,Delivery'' @ [CHR 0x0A] @ ''100,0'' @ [CHR 0x0A] @ ''200,5000'')
     = Inl ColumnsNotDetected"
  using analyze_needs_volume_header [OF parse_dip_delivery] headers_dip_delivery
    parse_dip_delivery
  by simp

lemma calculateDeliveryValidation_short:
  "length points < 2 \<Longrightarrow>
   calculateDeliveryValidation points chartData = \<lparr>deliveryData = [], stats = zeroStats\<rparr>"
  by (simp add: calculateDeliveryValidation_def)

text \<open>
  Claim C2, as the code has it. The error for fewer than 2 dip readings is raised by the
  callers of \<open>calculateDeliveryValidation\<close>: the handler of manually entered points, and
  the file pipelines \<open>processDeliveryValidation\<close> and \<open>processValidationData\<close> when fewer
  than 2 rows survive normalization. \<open>calculateDeliveryValidation\<close> itself, given fewer
  than 2 readings, returns the empty record list with the zero statistics.
\<close>

theorem delivery_guard_in_callers:
  "(length points < 2 \<longrightarrow>
      handleManualValidationSubmit points chartData = Inl TooFewDeliveryPoints \<and>
      calculateDeliveryValidation points chartData = \<lparr>deliveryData = [], stats = zeroStats\<rparr>) \<and>
   (parseFileContent text = Inr (headerList, rawData) \<and>
    findHeaders headerList = Some headers \<and> truthy (deliveryHeader headers) \<and>
    length (deliveryPointsOf headerList headers rawData) < 2 \<longrightarrow>
      processDeliveryValidation text chartData = Inl TooFewDeliveryPoints \<and>
      processValidationData text chartData = Inl TooFewDeliveryPoints)"
  by (auto simp: handleManualValidationSubmit_def calculateDeliveryValidation_short
        processDeliveryValidation_def processValidationData_def)

theorem delivery_guard_in_callers_witness:
  "handleManualValidationSubmit [\<lparr>dip_height = 100, delivery = 5000\<rparr>] []
     = Inl TooFewDeliveryPoints \<and>
   calculateDeliveryValidation [\<lparr>dip_height = 100, delivery = 5000\<rparr>] []
     = \<lparr>deliveryData = [], stats = zeroStats\<rparr> \<and>
   deliveryPointsOf [''Dip'', ''Delivery'']
      \<lparr>heightHeader = ''Dip'', volumeHeader = None, fieldVolumeHeader = None,
        deliveryHeader = Some ''Delivery''\<rparr>
      [[CNum (Fin 100), CNum (Fin 0)], [CStr ''x'', CNum (Fin 5000)]]
     = [RealValued \<lparr>dip_height = 100, delivery = 0\<rparr>] \<and>
   processDeliveryValidation
      (''Dip,Delivery'' @ [CHR 0x0A] @ ''100,0'' @ [CHR 0x0A] @ ''x,5000'') []
     = Inl TooFewDeliveryPoints \<and>
   processValidationData
      (''Dip,Delivery'' @ [CHR 0x0A] @ ''100,0'' @ [CHR 0x0A] @ ''x,5000'') []
     = Inl TooFewDeliveryPoints"
proof -
  have dp: "deliveryPointsOf [''Dip'', ''Delivery'']
      \<lparr>heightHeader = ''Dip'', volumeHeader = None, fieldVolumeHeader = None,
        deliveryHeader = Some ''Delivery''\<rparr>
      [[CNum (Fin 100), CNum (Fin 0)], [CStr ''x'', CNum (Fin 5000)]]
     = [RealValued \<lparr>dip_height = 100, delivery = 0\<rparr>]"
    by (simp add: deliveryPointsOf_def toDeliveryPoint_def cellAt_def List.map_filter_simps
          text_defs)
  show ?thesis
    using delivery_guard_in_callers
      [of "[\<lparr>dip_height = 100, delivery = 5000\<rparr>]" "[]"
          "''Dip,Delivery'' @ [CHR 0x0A] @ ''100,0'' @ [CHR 0x0A] @ ''x,5000''"
          "[''Dip'', ''Delivery'']" "[[CNum (Fin 100), CNum (Fin 0)], [CStr ''x'', CNum (Fin 5000)]]"
          "\<lparr>heightHeader = ''Dip'', volumeHeader = None, fieldVolumeHeader = None,
            deliveryHeader = Some ''Delivery''\<rparr>"]
      parse_dip_delivery_bad_row headers_dip_delivery dp
    by (simp add: truthy_def)
qed

text \<open>
  The claim as written fails for the direct invocation: on a single reading
  \<open>calculateDeliveryValidation\<close> returns a result, not an error.
\<close>

theorem delivery_guard_counterexample:
  "calculateDeliveryValidation [\<lparr>dip_height = 100, delivery = 5000\<rparr>]
      [calibrationPoint 0 0, calibrationPoint 1000 20000]
     = \<lparr>deliveryData = [], stats = zeroStats\<rparr>"
  by (simp add: calculateDeliveryValidation_def)

text \<open>
  A field volume that overflows reaches the statistics from a file: the numeral
  \<^verbatim>\<open>-1e400\<close> is read as \<^verbatim>\<open>-Infinity\<close>, the deviation of its row is \<^verbatim>\<open>-Infinity\<close>, and the
  maximum keeps its initial value.
\<close>

lemma analyze_overflowing_field_volume:
  "processAndAnalyzeData
     (''Dip,Volume,Field volume'' @ [CHR 0x0A] @ ''100,10,-1e400'')
   = Inr (RealValued
       \<lparr>ar_data = [\<lparr>height = 100, chartVolume = 10, fieldVolume = Num NegInfinity,
                    deviation = Num NegInfinity\<rparr>],
        ar_stats = Some
          \<lparr>totalMeasurements = 1, averageDeviation = Some NegInfinity,
           maxDeviation = \<lparr>dp_height = NegInfinity, dp_value = NegInfinity\<rparr>,
           minDeviation = \<lparr>dp_height = Fin 100, dp_value = NegInfinity\<rparr>\<rparr>,
        ar_initialConfig =
          \<lparr>cfg_heightHeader = ''Dip'', cfg_volumeHeader = ''Volume'',
           cfg_columnOrder = HeightVolume, cfg_decimalPlaces = 2\<rparr>\<rparr>)"
proof -
  have p: "parseFileContent (''Dip,Volume,Field volume'' @ [CHR 0x0A] @ ''100,10,-1e400'')
      = Inr ([''Dip'', ''Volume'', ''Field volume''],
             [[CNum (Fin 100), CNum (Fin 10), CNum NegInfinity]])"
    by (simp add: parseFileContent_def text_defs roundOverflow_def)
  have h: "findHeaders [''Dip'', ''Volume'', ''Field volume'']
      = Some \<lparr>heightHeader = ''Dip'', volumeHeader = Some ''Volume'',
               fieldVolumeHeader = Some ''Field volume'', deliveryHeader = None\<rparr>"
    by (simp add: header_defs text_defs)
  show ?thesis
    using p h
    by (simp add: Let_def processAndAnalyzeData_def truthy_def toProcessedData_def cellAt_def
          List.map_filter_simps toOptnum_def js_sub_def js_add_def calculateStats_def
          statsStep_def validDeviation_def less_extnum_def)
qed

end
